theory Spec2Isabelle
  imports Main "HOL-Library.Sublist"
begin

section \<open>Position resolver (language service, \<^verbatim>\<open>findNodeAtPosition\<close>)\<close>

subsection \<open>Spans\<close>

text \<open>
  The source distinguishes two span shapes. A \<^verbatim>\<open>ParseSourceSpan\<close> keeps its offsets in
  \<^verbatim>\<open>span.start.offset\<close> and \<^verbatim>\<open>span.end.offset\<close>; an \<^verbatim>\<open>AbsoluteSourceSpan\<close> (and the
  object literal \<^verbatim>\<open>{start, end}\<close> built in \<^verbatim>\<open>visit\<close>) keeps them in \<^verbatim>\<open>span.start\<close> and
  \<^verbatim>\<open>span.end\<close>. Offsets are JavaScript numbers; they are modelled as unbounded integers
  (first component the start offset, second component the end offset).
\<close>

type_synonym offsets = "int \<times> int"

datatype span = ParseSourceSpan offsets | AbsoluteSourceSpan offsets

text \<open>\<^verbatim>\<open>isWithin\<close>: both bounds are inclusive.\<close>

fun isWithin :: "int \<Rightarrow> span \<Rightarrow> bool" where
  "isWithin position (ParseSourceSpan (s, e)) = (s \<le> position \<and> position \<le> e)"
| "isWithin position (AbsoluteSourceSpan (s, e)) = (s \<le> position \<and> position \<le> e)"

subsection \<open>Expression AST and template AST\<close>

text \<open>
  Expression nodes (\<^verbatim>\<open>e.AST\<close>, declared in \<^verbatim>\<open>expression_parser/ast\<close> of the compiler
  package, which is not among the sources). Every node has an absolute \<^verbatim>\<open>sourceSpan\<close>.
  \<^verbatim>\<open>ASTWithSource\<close> wraps one node; \<^verbatim>\<open>ImplicitReceiver\<close> is the synthetic receiver; every
  other kind is \<^verbatim>\<open>Expr kind sourceSpan children\<close>, where the children are the sub-expressions
  in the order in which the library's \<^verbatim>\<open>RecursiveAstVisitor\<close> hands them to \<^verbatim>\<open>this.visit\<close>.
\<close>

datatype ast =
    ASTWithSource offsets ast
  | ImplicitReceiver offsets
  | Expr string offsets "ast list"

fun ast_sourceSpan :: "ast \<Rightarrow> offsets" where
  "ast_sourceSpan (ASTWithSource sp a) = sp"
| "ast_sourceSpan (ImplicitReceiver sp) = sp"
| "ast_sourceSpan (Expr k sp cs) = sp"

text \<open>
  Template nodes (\<^verbatim>\<open>t.Node\<close>). The node classes are declared in the compiler package
  (\<^verbatim>\<open>render3/r3_ast\<close>), which is not among the sources; the constructors are the kinds that
  the visitor has a method for, with the fields that the visitor reads. The first argument of every constructor is the offsets of
  the node's \<^verbatim>\<open>sourceSpan\<close> (a \<^verbatim>\<open>ParseSourceSpan\<close>). \<^verbatim>\<open>Element\<close> and \<^verbatim>\<open>Template\<close> carry
  the optional \<^verbatim>\<open>endSourceSpan\<close> next, then their child lists in the order of the fields
  the visitor reads. Attribute-like nodes carry \<^verbatim>\<open>key_value\<close>: the optional \<^verbatim>\<open>keySpan\<close>
  and the optional \<^verbatim>\<open>valueSpan\<close>. \<^verbatim>\<open>BoundAttribute\<close> and \<^verbatim>\<open>BoundEvent\<close> start with their
  \<^verbatim>\<open>name\<close> and end with the bound expression (\<^verbatim>\<open>value\<close>, \<^verbatim>\<open>handler\<close>). The two lists of
  \<^verbatim>\<open>Icu\<close> are \<^verbatim>\<open>Object.values(icu.vars)\<close> and \<^verbatim>\<open>Object.values(icu.placeholders)\<close>.
  The list of \<^verbatim>\<open>Content\<close> is its \<^verbatim>\<open>attributes\<close> (declared \<^verbatim>\<open>TextAttribute[]\<close>).
\<close>

type_synonym key_value = "offsets option \<times> offsets option"

datatype node =
    Element offsets "offsets option" "node list" "node list" "node list" "node list" "node list"
  | Template offsets "offsets option" "node list" "node list" "node list" "node list"
      "node list" "node list" "node list"
  | Content offsets "node list"
  | Variable offsets key_value
  | Reference offsets key_value
  | TextAttribute offsets key_value
  | BoundAttribute string offsets key_value ast
  | BoundEvent string offsets key_value ast
  | Text offsets
  | BoundText offsets ast
  | Icu offsets "node list" "node list"

fun sourceSpan :: "node \<Rightarrow> offsets" where
  "sourceSpan (Element sp es as ins outs refs cs) = sp"
| "sourceSpan (Template sp es as ins outs tas refs vars cs) = sp"
| "sourceSpan (Content sp as) = sp"
| "sourceSpan (Variable sp kv) = sp"
| "sourceSpan (Reference sp kv) = sp"
| "sourceSpan (TextAttribute sp kv) = sp"
| "sourceSpan (BoundAttribute n sp kv v) = sp"
| "sourceSpan (BoundEvent n sp kv h) = sp"
| "sourceSpan (Text sp) = sp"
| "sourceSpan (BoundText sp v) = sp"
| "sourceSpan (Icu sp vars phs) = sp"



text \<open>
  \<^verbatim>\<open>getSpanIncludingEndTag\<close>: start and end of the node's own span, the end replaced by the
  end of the closing tag for an \<^verbatim>\<open>Element\<close> or \<^verbatim>\<open>Template\<close> that has an \<^verbatim>\<open>endSourceSpan\<close>.
\<close>

fun getSpanIncludingEndTag :: "node \<Rightarrow> offsets" where
  "getSpanIncludingEndTag (Element sp (Some es) as ins outs refs cs) = (fst sp, snd es)"
| "getSpanIncludingEndTag (Template sp (Some es) as ins outs tas refs vars cs) = (fst sp, snd es)"
| "getSpanIncludingEndTag n = sourceSpan n"

subsection \<open>The path and the helpers of \<^verbatim>\<open>./utils\<close>\<close>

text \<open>An entry of \<^verbatim>\<open>path: Array<t.Node|e.AST>\<close>.\<close>

datatype entry = TNode node | ENode ast

text \<open>
  Modelled from the spec: \<^verbatim>\<open>isTemplateNode\<close> and \<^verbatim>\<open>isTemplateNodeWithKeyAndValue\<close> are
  imported from \<^verbatim>\<open>./utils\<close>, which is not among the sources. A template node is a
  \<^verbatim>\<open>t.Node\<close>; a key/value-shaped node is a template node that has a key span (``an
  attribute with distinct name-span and value-span''), its value span being optional as
  the test \<^verbatim>\<open>valueSpan && ...\<close> of the caller shows.
\<close>

fun isTemplateNode :: "entry \<Rightarrow> bool" where
  "isTemplateNode (TNode n) = True"
| "isTemplateNode (ENode a) = False"

fun key_value_of :: "node \<Rightarrow> key_value" where
  "key_value_of (Variable sp kv) = kv"
| "key_value_of (Reference sp kv) = kv"
| "key_value_of (TextAttribute sp kv) = kv"
| "key_value_of (BoundAttribute n sp kv v) = kv"
| "key_value_of (BoundEvent n sp kv h) = kv"
| "key_value_of n = (None, None)"

definition keySpan :: "node \<Rightarrow> offsets option" where
  "keySpan n = fst (key_value_of n)"

definition valueSpan :: "node \<Rightarrow> offsets option" where
  "valueSpan n = snd (key_value_of n)"

fun hasKeySpan :: "entry \<Rightarrow> bool" where
  "hasKeySpan (TNode n) = (keySpan n \<noteq> None)"
| "hasKeySpan (ENode a) = False"

definition isTemplateNodeWithKeyAndValue :: "entry \<Rightarrow> bool" where
  "isTemplateNodeWithKeyAndValue x = (isTemplateNode x \<and> hasKeySpan x)"

subsection \<open>\<^verbatim>\<open>ExpressionVisitor\<close>\<close>

text \<open>
  \<^verbatim>\<open>ExpressionVisitor.visit(node, path)\<close> unwraps one \<^verbatim>\<open>ASTWithSource\<close>, and pushes the
  node and visits its children when its span contains the position and it is not the
  implicit receiver. \<^verbatim>\<open>node.visit(this, path)\<close> is \<^verbatim>\<open>ast_accept\<close>: the library's
  \<^verbatim>\<open>RecursiveAstVisitor\<close> calls \<^verbatim>\<open>this.visit(child, path)\<close> on every child in order, a
  wrapper forwards to the node it wraps, the implicit receiver has no children. The path
  is threaded through as state; pushing appends at the end.
\<close>

fun unwrap :: "ast \<Rightarrow> ast" where
  "unwrap (ASTWithSource sp a) = a"
| "unwrap a = a"

fun isImplicitReceiver :: "ast \<Rightarrow> bool" where
  "isImplicitReceiver (ImplicitReceiver sp) = True"
| "isImplicitReceiver a = False"

function (sequential) ExpressionVisitor_visit :: "int \<Rightarrow> ast \<Rightarrow> entry list \<Rightarrow> entry list"
  and ast_accept :: "int \<Rightarrow> ast \<Rightarrow> entry list \<Rightarrow> entry list"
  and ExpressionVisitor_visitAll :: "int \<Rightarrow> ast list \<Rightarrow> entry list \<Rightarrow> entry list"
where
  "ExpressionVisitor_visit position node0 path =
     (let node = unwrap node0 in
      if isWithin position (AbsoluteSourceSpan (ast_sourceSpan node)) \<and> \<not> isImplicitReceiver node
      then ast_accept position node (path @ [ENode node])
      else path)"
| "ast_accept position (ASTWithSource sp a) path = ast_accept position a path"
| "ast_accept position (ImplicitReceiver sp) path = path"
| "ast_accept position (Expr k sp cs) path = ExpressionVisitor_visitAll position cs path"
| "ExpressionVisitor_visitAll position [] path = path"
| "ExpressionVisitor_visitAll position (c # cs) path =
     ExpressionVisitor_visitAll position cs (ExpressionVisitor_visit position c path)"
  by pat_completeness auto
termination
  by (relation "measure (\<lambda>x. case x of
          Inl (p, a, pa) \<Rightarrow> 2 * size a + 1
        | Inr (Inl (p, a, pa)) \<Rightarrow> 2 * size a
        | Inr (Inr (p, as, pa)) \<Rightarrow> 2 * size_list size as + 1)")
     (auto simp: le_imp_less_Suc, case_tac node0, simp_all)

subsection \<open>\<^verbatim>\<open>R3Visitor\<close>\<close>

text \<open>
  The length that \<^verbatim>\<open>visit\<close> computes for the last entry of the path: the span including
  the end tag for a template node, the \<^verbatim>\<open>sourceSpan\<close> of an expression node.
\<close>

fun spanLength :: "offsets \<Rightarrow> int" where
  "spanLength (s, e) = e - s"

fun entrySpan :: "entry \<Rightarrow> offsets" where
  "entrySpan (TNode n) = getSpanIncludingEndTag n"
| "entrySpan (ENode a) = ast_sourceSpan a"

text \<open>\<^verbatim>\<open>this.path[this.path.length - 1]\<close>, \<^verbatim>\<open>undefined\<close> on the empty path.\<close>

fun lastEntry :: "entry list \<Rightarrow> entry option" where
  "lastEntry [] = None"
| "lastEntry path = Some (last path)"

text \<open>
  The test of \<^verbatim>\<open>visitBoundEvent\<close>:
  \<^verbatim>\<open>path.some(n => n instanceof t.BoundAttribute && event.name === n.name + 'Change')\<close>.
\<close>

fun isBoundAttributeFor :: "string \<Rightarrow> entry \<Rightarrow> bool" where
  "isBoundAttributeFor eventName (TNode (BoundAttribute n sp kv v)) = (eventName = n @ ''Change'')"
| "isBoundAttributeFor eventName x = False"

definition isTwoWayBinding :: "string \<Rightarrow> entry list \<Rightarrow> bool" where
  "isTwoWayBinding eventName path = list_ex (isBoundAttributeFor eventName) path"

text \<open>
  \<^verbatim>\<open>visit\<close> is \<^verbatim>\<open>R3Visitor.visit\<close>; \<^verbatim>\<open>node_accept\<close> is \<^verbatim>\<open>node.visit(this)\<close>, the dispatch
  to the \<^verbatim>\<open>visitElement\<close>, \<^verbatim>\<open>visitTemplate\<close>, ... method of the node's kind; \<^verbatim>\<open>visitAll\<close> is
  the loop over a node list. \<^verbatim>\<open>visitContent\<close> goes through the library's \<^verbatim>\<open>t.visitAll\<close>,
  which hands every attribute to \<^verbatim>\<open>visit\<close>; the attributes of a \<^verbatim>\<open>Content\<close> are text
  attributes, whose own dispatch \<^verbatim>\<open>visitTextAttribute\<close> does nothing.
\<close>

function (sequential) visit :: "int \<Rightarrow> node \<Rightarrow> entry list \<Rightarrow> entry list"
  and node_accept :: "int \<Rightarrow> node \<Rightarrow> entry list \<Rightarrow> entry list"
  and visitAll :: "int \<Rightarrow> node list \<Rightarrow> entry list \<Rightarrow> entry list"
where
  "visit position node path =
     (if isWithin position (AbsoluteSourceSpan (getSpanIncludingEndTag node)) then
        (case lastEntry path of
           Some lst \<Rightarrow>
             if spanLength (getSpanIncludingEndTag node) > spanLength (entrySpan lst) then path
             else node_accept position node (path @ [TNode node])
         | None \<Rightarrow> node_accept position node (path @ [TNode node]))
      else path)"
| "node_accept position (Element sp es as ins outs refs cs) path =
     visitAll position cs (visitAll position refs (visitAll position outs
       (visitAll position ins (visitAll position as path))))"
| "node_accept position (Template sp es as ins outs tas refs vars cs) path =
     visitAll position cs (visitAll position vars (visitAll position refs
       (visitAll position tas (visitAll position outs (visitAll position ins
         (visitAll position as path))))))"
| "node_accept position (Content sp as) path =
     visitAll position as path"
| "node_accept position (Variable sp kv) path = path"
| "node_accept position (Reference sp kv) path = path"
| "node_accept position (TextAttribute sp kv) path = path"
| "node_accept position (BoundAttribute n sp kv v) path = ExpressionVisitor_visit position v path"
| "node_accept position (BoundEvent n sp kv h) path =
     (if isTwoWayBinding n path then butlast path
      else ExpressionVisitor_visit position h path)"
| "node_accept position (Text sp) path = path"
| "node_accept position (BoundText sp v) path = ExpressionVisitor_visit position v path"
| "node_accept position (Icu sp vars phs) path =
     visitAll position phs (visitAll position vars path)"
| "visitAll position [] path = path"
| "visitAll position (n # ns) path = visitAll position ns (visit position n path)"
  by pat_completeness auto
termination
  by (relation "measure (\<lambda>x. case x of
          Inl (p, n, pa) \<Rightarrow> 2 * size n + 1
        | Inr (Inl (p, n, pa)) \<Rightarrow> 2 * size n
        | Inr (Inr (p, ns, pa)) \<Rightarrow> 2 * size_list size ns + 1)")
     (auto simp: le_imp_less_Suc)

text \<open>
  \<^verbatim>\<open>findNodeAtPosition\<close>: run the visitor over the roots from the empty path, take the
  last entry of the path, and drop a key/value-shaped candidate when the position is in
  neither its key span nor its (present) value span. \<^verbatim>\<open>None\<close> is \<^verbatim>\<open>undefined\<close>.
  \<^verbatim>\<open>outsideKeyAndValue\<close> is the condition of the inner \<^verbatim>\<open>if\<close>,
  \<^verbatim>\<open>!isWithin(position, keySpan) && (valueSpan && !isWithin(position, valueSpan))\<close>.
\<close>

fun outsideKeyAndValue :: "int \<Rightarrow> entry \<Rightarrow> bool" where
  "outsideKeyAndValue position (TNode n) =
     (case keySpan n of
        None \<Rightarrow> False
      | Some k \<Rightarrow>
          \<not> isWithin position (ParseSourceSpan k) \<and>
          (case valueSpan n of None \<Rightarrow> False | Some v \<Rightarrow> \<not> isWithin position (ParseSourceSpan v)))"
| "outsideKeyAndValue position (ENode a) = False"

definition findNodeAtPosition :: "node list \<Rightarrow> int \<Rightarrow> entry option" where
  "findNodeAtPosition nodes position =
     (case lastEntry (visitAll position nodes []) of
        None \<Rightarrow> None
      | Some candidate \<Rightarrow>
          if isTemplateNodeWithKeyAndValue candidate \<and> outsideKeyAndValue position candidate
          then None
          else Some candidate)"

section \<open>Directive metadata flattener (\<^verbatim>\<open>flattenInheritedDirectiveMetadata\<close>)\<close>

text \<open>
  A class reference (\<^verbatim>\<open>Reference<ClassDeclaration>\<close>) is identified by its debug name.
  \<^verbatim>\<open>baseClass\<close> is \<^verbatim>\<open>null\<close>, the sentinel \<^verbatim>\<open>'dynamic'\<close>, or a reference.
\<close>

type_synonym class_ref = string

datatype base_class = NoBase | Dynamic | BaseRef class_ref

text \<open>
  Modelled from the spec: \<^verbatim>\<open>ClassPropertyMapping\<close> (\<^verbatim>\<open>./property_mapping\<close>) is not among the
  sources. The spec describes the inputs and outputs of a directive as a ``mapping from public
  name to declared property name'' and \<^verbatim>\<open>ClassPropertyMapping.merge\<close> as a ``right-biased
  merge'': a finite map, the empty map, and a merge in which the entries of the second
  argument win.
\<close>

type_synonym ClassPropertyMapping = "string \<rightharpoonup> string"

definition ClassPropertyMapping_empty :: ClassPropertyMapping where
  "ClassPropertyMapping_empty = Map.empty"

definition ClassPropertyMapping_merge ::
    "ClassPropertyMapping \<Rightarrow> ClassPropertyMapping \<Rightarrow> ClassPropertyMapping" where
  "ClassPropertyMapping_merge a b = a ++ b"

text \<open>
  \<^verbatim>\<open>DirectiveMeta\<close> (declared in \<^verbatim>\<open>./api\<close>): the fields the flattener reads and writes;
  \<^verbatim>\<open>selector\<close> stands for the fields that the spread \<^verbatim>\<open>...topMeta\<close> copies unchanged.
\<close>

record DirectiveMeta =
  selector :: string
  inputs :: ClassPropertyMapping
  outputs :: ClassPropertyMapping
  coercedInputFields :: "string set"
  undeclaredInputFields :: "string set"
  restrictedInputFields :: "string set"
  stringLiteralInputFields :: "string set"
  baseClass :: base_class

type_synonym MetadataReader = "class_ref \<Rightarrow> DirectiveMeta option"

text \<open>The local variables that the closure \<^verbatim>\<open>addMetadata\<close> updates.\<close>

record flatten_vars =
  isDynamic :: bool
  inputs_acc :: ClassPropertyMapping
  outputs_acc :: ClassPropertyMapping
  coerced_acc :: "string set"
  undeclared_acc :: "string set"
  restricted_acc :: "string set"
  stringLiteral_acc :: "string set"

definition initial_vars :: flatten_vars where
  "initial_vars =
     \<lparr>isDynamic = False,
      inputs_acc = ClassPropertyMapping_empty, outputs_acc = ClassPropertyMapping_empty,
      coerced_acc = {}, undeclared_acc = {}, restricted_acc = {}, stringLiteral_acc = {}\<rparr>"

text \<open>The second half of \<^verbatim>\<open>addMetadata\<close>: merge this level into the accumulators.\<close>

definition mergeLevel :: "DirectiveMeta \<Rightarrow> flatten_vars \<Rightarrow> flatten_vars" where
  "mergeLevel meta vs =
     vs\<lparr>inputs_acc := ClassPropertyMapping_merge (inputs_acc vs) (inputs meta),
        outputs_acc := ClassPropertyMapping_merge (outputs_acc vs) (outputs meta),
        coerced_acc := coerced_acc vs \<union> coercedInputFields meta,
        undeclared_acc := undeclared_acc vs \<union> undeclaredInputFields meta,
        restricted_acc := restricted_acc vs \<union> restrictedInputFields meta,
        stringLiteral_acc := stringLiteral_acc vs \<union> stringLiteralInputFields meta\<rparr>"

text \<open>
  \<^verbatim>\<open>addMetadata\<close> recurses into the base class first and merges its own level afterwards.
  On a cyclic chain of base classes the recursion never returns: the result is then \<^verbatim>\<open>None\<close>.
\<close>

partial_function (option) addMetadata ::
    "MetadataReader \<Rightarrow> DirectiveMeta \<Rightarrow> flatten_vars \<Rightarrow> flatten_vars option" where
  "addMetadata reader meta vs =
     Option.bind
       (case baseClass meta of
          Dynamic \<Rightarrow> Some (vs\<lparr>isDynamic := True\<rparr>)
        | BaseRef r \<Rightarrow>
            (case reader r of
               Some baseMeta \<Rightarrow> addMetadata reader baseMeta vs
             | None \<Rightarrow> Some (vs\<lparr>isDynamic := True\<rparr>))
        | NoBase \<Rightarrow> Some vs)
       (\<lambda>vs'. Some (mergeLevel meta vs'))"

declare addMetadata.simps [code]

datatype error = Error string

text \<open>
  \<^verbatim>\<open>flattenInheritedDirectiveMetadata\<close>: \<^verbatim>\<open>Some (Inl e)\<close> is the thrown \<^verbatim>\<open>Error\<close>,
  \<^verbatim>\<open>Some (Inr m)\<close> the returned record, \<^verbatim>\<open>None\<close> a call that never returns.
\<close>

definition flattenInheritedDirectiveMetadata ::
    "MetadataReader \<Rightarrow> class_ref \<Rightarrow> (error + DirectiveMeta) option" where
  "flattenInheritedDirectiveMetadata reader dir =
     (case reader dir of
        None \<Rightarrow> Some (Inl (Error (''Metadata not found for directive: '' @ dir)))
      | Some topMeta \<Rightarrow>
          if baseClass topMeta = NoBase then Some (Inr topMeta)
          else
            Option.bind (addMetadata reader topMeta initial_vars)
              (\<lambda>vs. Some (Inr (topMeta
                 \<lparr>inputs := inputs_acc vs,
                  outputs := outputs_acc vs,
                  coercedInputFields := coerced_acc vs,
                  undeclaredInputFields := undeclared_acc vs,
                  restrictedInputFields := restricted_acc vs,
                  stringLiteralInputFields := stringLiteral_acc vs,
                  baseClass := (if isDynamic vs then Dynamic else NoBase)\<rparr>))))"

text \<open>
  The inheritance chain that the walk from \<^verbatim>\<open>meta\<close> follows: \<^verbatim>\<open>chain reader meta ms d\<close> holds
  when the walk visits exactly the levels \<^verbatim>\<open>ms\<close> (the most derived first) and ends either at a
  level without base class (\<^verbatim>\<open>d = False\<close>: the chain is resolvable) or at a level whose
  base class is \<^verbatim>\<open>'dynamic'\<close> or is unknown to the reader (\<^verbatim>\<open>d = True\<close>).
\<close>

inductive chain :: "MetadataReader \<Rightarrow> DirectiveMeta \<Rightarrow> DirectiveMeta list \<Rightarrow> bool \<Rightarrow> bool"
  for reader :: MetadataReader where
  chain_null: "baseClass meta = NoBase \<Longrightarrow> chain reader meta [meta] False"
| chain_dynamic: "baseClass meta = Dynamic \<Longrightarrow> chain reader meta [meta] True"
| chain_missing:
    "baseClass meta = BaseRef r \<Longrightarrow> reader r = None \<Longrightarrow> chain reader meta [meta] True"
| chain_step:
    "baseClass meta = BaseRef r \<Longrightarrow> reader r = Some baseMeta \<Longrightarrow> chain reader baseMeta ms d
     \<Longrightarrow> chain reader meta (meta # ms) d"

text \<open>
  The merge as the spec words it: for every key the entry of the most derived level that
  declares the key, and the union of a field-classification set over all levels.
\<close>

fun mostDerivedEntry :: "ClassPropertyMapping list \<Rightarrow> string \<Rightarrow> string option" where
  "mostDerivedEntry [] k = None"
| "mostDerivedEntry (m # ms) k = (case m k of Some v \<Rightarrow> Some v | None \<Rightarrow> mostDerivedEntry ms k)"

definition unionOverLevels :: "(DirectiveMeta \<Rightarrow> string set) \<Rightarrow> DirectiveMeta list \<Rightarrow> string set" where
  "unionOverLevels field ms = \<Union> (set (map field ms))"

section \<open>Message serializer (\<^verbatim>\<open>serializeTranslationMessage\<close>)\<close>

text \<open>
  \<^verbatim>\<open>parseInnerRange\<close> (\<^verbatim>\<open>./translation_utils\<close>) and the body of the \<^verbatim>\<open>try\<close> block, the
  construction of a \<^verbatim>\<open>MessageSerializer\<close> and its \<^verbatim>\<open>serialize\<close>, are not among the sources:
  they are parameters. \<^verbatim>\<open>parseInnerRange element\<close> is \<^verbatim>\<open>Inr\<close> of the root nodes and the parse
  errors that it returns, or \<^verbatim>\<open>Inl\<close> of the value that it throws. \<^verbatim>\<open>serialize config rootNodes\<close>
  is \<^verbatim>\<open>Inr\<close> of the value that the serializer returns (\<^verbatim>\<open>None\<close> when that value is
  \<^verbatim>\<open>null\<close>), or \<^verbatim>\<open>Inl\<close> of the value thrown inside the \<^verbatim>\<open>try\<close> block.

  The call of \<^verbatim>\<open>parseInnerRange\<close> stands before the \<^verbatim>\<open>try\<close> block, so what it throws is not
  caught: the result of \<^verbatim>\<open>serializeTranslationMessage\<close> is \<^verbatim>\<open>Inl\<close> of the exception that
  escapes, or \<^verbatim>\<open>Inr\<close> of the record that is returned. In the record \<^verbatim>\<open>translation = None\<close>
  is \<^verbatim>\<open>null\<close>.
\<close>

record ('t, 'e) serialized =
  translation :: "'t option"
  parseErrors :: "'e list"
  serializeErrors :: "'e list"

definition serializeTranslationMessage ::
    "('el \<Rightarrow> 'x + 'n list \<times> 'e list) \<Rightarrow> ('c \<Rightarrow> 'n list \<Rightarrow> 'e + 't option) \<Rightarrow> 'el \<Rightarrow> 'c
       \<Rightarrow> 'x + ('t, 'e) serialized" where
  "serializeTranslationMessage parseInnerRange serialize element config =
     (case parseInnerRange element of
        Inl thrown \<Rightarrow> Inl thrown
      | Inr (rootNodes, parseErrs) \<Rightarrow>
          (case serialize config rootNodes of
             Inr t \<Rightarrow> Inr \<lparr>translation = t, parseErrors = parseErrs, serializeErrors = []\<rparr>
           | Inl e \<Rightarrow> Inr \<lparr>translation = None, parseErrors = parseErrs, serializeErrors = [e]\<rparr>))"

section \<open>Auxiliary notions and example inputs\<close>

text \<open>An entry of the path whose span (as \<^verbatim>\<open>visit\<close> measures it) contains the position.\<close>

definition onPath :: "int \<Rightarrow> entry \<Rightarrow> bool" where
  "onPath position x = isWithin position (AbsoluteSourceSpan (entrySpan x))"


text \<open>
  \<^verbatim>\<open><a></a><b></b>\<close>: two sibling roots whose spans (end tags included) have the same
  length and share offset 7.
\<close>

definition sibling_a :: node where
  "sibling_a = Element (0, 3) (Some (3, 7)) [] [] [] [] []"

definition sibling_b :: node where
  "sibling_b = Element (7, 10) (Some (10, 14)) [] [] [] [] []"







text \<open>
  \<^verbatim>\<open><div [name]="ab"></div>\<close>: the bound attribute is [5, 16], its key [6, 10], its value
  [13, 15]; offsets 11 and 12 (\<^verbatim>\<open>="\<close>) are in the attribute but in neither sub-span.
\<close>

definition name_binding :: node where
  "name_binding =
     BoundAttribute ''name'' (5, 16) (Some (6, 10), Some (13, 15))
       (ASTWithSource (13, 15) (Expr ''PropertyRead'' (13, 15) [ImplicitReceiver (13, 13)]))"

definition div_with_binding :: node where
  "div_with_binding = Element (0, 17) (Some (17, 23)) [] [name_binding] [] [] []"

text \<open>A chain of three directive classes, and readers that know all or some of them.\<close>

definition grand_meta :: DirectiveMeta where
  "grand_meta =
     \<lparr>selector = ''[grand]'',
      inputs = [''id'' \<mapsto> ''id'', ''value'' \<mapsto> ''grandValue''],
      outputs = Map.empty,
      coercedInputFields = {}, undeclaredInputFields = {''legacy''},
      restrictedInputFields = {}, stringLiteralInputFields = {},
      baseClass = NoBase\<rparr>"

definition parent_meta :: DirectiveMeta where
  "parent_meta =
     \<lparr>selector = ''[parent]'',
      inputs = [''value'' \<mapsto> ''parentValue'', ''label'' \<mapsto> ''label''],
      outputs = [''changed'' \<mapsto> ''parentChanged''],
      coercedInputFields = {''label''}, undeclaredInputFields = {},
      restrictedInputFields = {''secret''}, stringLiteralInputFields = {},
      baseClass = BaseRef ''Grand''\<rparr>"

definition child_meta :: DirectiveMeta where
  "child_meta =
     \<lparr>selector = ''[child]'',
      inputs = [''value'' \<mapsto> ''childValue''],
      outputs = [''changed'' \<mapsto> ''childChanged''],
      coercedInputFields = {''size''}, undeclaredInputFields = {},
      restrictedInputFields = {}, stringLiteralInputFields = {''aria-label''},
      baseClass = BaseRef ''Parent''\<rparr>"

definition full_reader :: MetadataReader where
  "full_reader = [''Child'' \<mapsto> child_meta, ''Parent'' \<mapsto> parent_meta, ''Grand'' \<mapsto> grand_meta]"

definition gap_reader :: MetadataReader where
  "gap_reader = [''Child'' \<mapsto> child_meta, ''Grand'' \<mapsto> grand_meta]"

definition child_only_reader :: MetadataReader where
  "child_only_reader = [''Child'' \<mapsto> child_meta]"

definition no_grand_reader :: MetadataReader where
  "no_grand_reader = [''Child'' \<mapsto> child_meta, ''Parent'' \<mapsto> parent_meta]"

definition grand_only_reader :: MetadataReader where
  "grand_only_reader = [''Grand'' \<mapsto> grand_meta]"

text \<open>What flattening \<^verbatim>\<open>Child\<close> gives when its base class is unknown to the reader.\<close>

definition child_dynamic :: DirectiveMeta where
  "child_dynamic = child_meta\<lparr>baseClass := Dynamic\<rparr>"

text \<open>
  Stand-ins for the two absent collaborators of \<^verbatim>\<open>serializeTranslationMessage\<close>: a parser
  that throws on the empty element, a serializer that throws in strict mode, and a
  serializer that returns \<^verbatim>\<open>null\<close>.
\<close>

definition sample_parseInnerRange :: "string \<Rightarrow> string + string list \<times> string list" where
  "sample_parseInnerRange element =
     (if element = [] then Inl ''TypeError: cannot read the end tag''
      else Inr ([element], [''Unexpected closing tag'']))"

definition sample_serialize :: "bool \<Rightarrow> string list \<Rightarrow> string + nat option" where
  "sample_serialize strict rootNodes =
     (if strict then Inl ''Nested translatable section'' else Inr (Some (length rootNodes)))"

definition null_serialize :: "bool \<Rightarrow> string list \<Rightarrow> string + nat option" where
  "null_serialize strict rootNodes = Inr None"

section \<open>Properties of the position resolver\<close>

subsection \<open>The path only grows, and holds only nodes that contain the position\<close>

lemma ExpressionVisitor_prefix:
  "prefix path (ExpressionVisitor_visit position a path)"
  "prefix path (ast_accept position a path)"
  "prefix path (ExpressionVisitor_visitAll position as path)"
proof (induction position a path and position a path and position as path
    rule: ExpressionVisitor_visit_ast_accept_ExpressionVisitor_visitAll.induct)
  case (1 position node0 path)
  then show ?case
    by (auto simp: Let_def dest: append_prefixD)
next
  case (6 position c cs path)
  then show ?case
    using prefix_order.trans by fastforce
qed simp_all

lemma visit_prefix:
  "prefix path (visit position n path)"
  "prefix (butlast path) (node_accept position n path)"
  "prefix path (visitAll position ns path)"
proof (induction position n path and position n path and position ns path
    rule: visit_node_accept_visitAll.induct)
  case (1 position node path)
  then show ?case
    by (auto split: option.splits)
next
  case (14 position n ns path)
  then show ?case
    using prefix_order.trans by fastforce
qed (auto simp del: ExpressionVisitor_visit.simps
      intro: prefix_order.trans[OF prefixeq_butlast] ExpressionVisitor_prefix)

lemma visitAll_nonempty: "path \<noteq> [] \<Longrightarrow> visitAll position ns path \<noteq> []"
  using visit_prefix(3) [of path position ns] by auto

lemma ExpressionVisitor_visit_nonempty:
  "path \<noteq> [] \<Longrightarrow> ExpressionVisitor_visit position a path \<noteq> []"
  using ExpressionVisitor_prefix(1) [of path position a] by auto

lemma node_accept_single: "node_accept position n [TNode n] \<noteq> []"
  by (cases n)
    (simp_all add: isTwoWayBinding_def visitAll_nonempty ExpressionVisitor_visit_nonempty
      del: ExpressionVisitor_visit.simps visit.simps)

lemma visit_Nil_iff:
  "visit position n path = [] \<longleftrightarrow>
     path = [] \<and> \<not> isWithin position (AbsoluteSourceSpan (getSpanIncludingEndTag n))"
proof (cases "path = []")
  case True
  with node_accept_single [of position n] show ?thesis by simp
next
  case False
  then show ?thesis
    using visit_prefix(1) [of path position n] by auto
qed

lemma visitAll_Nil_iff:
  "visitAll position ns path = [] \<longleftrightarrow>
     path = [] \<and> (\<forall>n\<in>set ns. \<not> isWithin position (AbsoluteSourceSpan (getSpanIncludingEndTag n)))"
  by (induction ns arbitrary: path) (auto simp: visit_Nil_iff simp del: visit.simps)

lemma ExpressionVisitor_within:
  "list_all (onPath position) path \<Longrightarrow> list_all (onPath position) (ExpressionVisitor_visit position a path)"
  "list_all (onPath position) path \<Longrightarrow> list_all (onPath position) (ast_accept position a path)"
  "list_all (onPath position) path \<Longrightarrow> list_all (onPath position) (ExpressionVisitor_visitAll position as path)"
proof (induction position a path and position a path and position as path
    rule: ExpressionVisitor_visit_ast_accept_ExpressionVisitor_visitAll.induct)
  case (1 position node0 path)
  then show ?case
    by (auto simp: Let_def onPath_def)
qed simp_all

lemma list_all_butlast: "list_all P xs \<Longrightarrow> list_all P (butlast xs)"
  by (auto simp: list_all_iff dest: in_set_butlastD)

lemma visit_within:
  "list_all (onPath position) path \<Longrightarrow> list_all (onPath position) (visit position n path)"
  "list_all (onPath position) path \<Longrightarrow> list_all (onPath position) (node_accept position n path)"
  "list_all (onPath position) path \<Longrightarrow> list_all (onPath position) (visitAll position ns path)"
proof (induction position n path and position n path and position ns path
    rule: visit_node_accept_visitAll.induct)
  case (1 position node path)
  then show ?case
    by (auto simp: onPath_def split: option.splits)
qed (auto simp del: ExpressionVisitor_visit.simps visit.simps
      intro: list_all_butlast ExpressionVisitor_within)

lemma lastEntry_Some: "lastEntry path = Some x \<longleftrightarrow> path \<noteq> [] \<and> last path = x"
  by (cases path) auto

lemma lastEntry_None: "lastEntry path = None \<longleftrightarrow> path = []"
  by (cases path) auto

lemma candidate_within:
  assumes "lastEntry (visitAll position nodes []) = Some x"
  shows "isWithin position (AbsoluteSourceSpan (entrySpan x))"
proof -
  have "list_all (onPath position) (visitAll position nodes [])"
    by (rule visit_within(3)) simp
  moreover from assms have "x \<in> set (visitAll position nodes [])"
    by (auto simp: lastEntry_Some)
  ultimately show ?thesis
    by (auto simp: list_all_iff onPath_def)
qed



lemma visit_larger:
  "path \<noteq> [] \<Longrightarrow>
   spanLength (getSpanIncludingEndTag node) > spanLength (entrySpan (last path)) \<Longrightarrow>
   visit position node path = path"
  by (cases path) auto

lemma visitAll_larger:
  "path \<noteq> [] \<Longrightarrow>
   \<forall>n\<in>set ns. spanLength (getSpanIncludingEndTag n) > spanLength (entrySpan (last path)) \<Longrightarrow>
   visitAll position ns path = path"
  by (induction ns arbitrary: path) (simp_all del: visit.simps add: visit_larger)



lemma visit_enter:
  "isWithin position (AbsoluteSourceSpan (getSpanIncludingEndTag node)) \<Longrightarrow>
   path = [] \<or> spanLength (getSpanIncludingEndTag node) \<le> spanLength (entrySpan (last path)) \<Longrightarrow>
   visit position node path = node_accept position node (path @ [TNode node])"
  by (cases path) auto




subsection \<open>Inclusive bounds\<close>

text \<open>
  Claim C10. \<^verbatim>\<open>isWithin\<close> is membership in the closed interval from start to end, for both
  shapes of span. For a span with \<^verbatim>\<open>start \<le> end\<close> the start offset and the end offset are
  contained; a node with such a span is entered by \<^verbatim>\<open>visit\<close> at both offsets, and a text
  node is the result of \<^verbatim>\<open>findNodeAtPosition\<close> at both.
\<close>

theorem isWithin_closed_interval:
  "isWithin position (ParseSourceSpan (s, e)) = (position \<in> {s..e}) \<and>
   isWithin position (AbsoluteSourceSpan (s, e)) = (position \<in> {s..e}) \<and>
   (s \<le> e \<longrightarrow>
      isWithin s (ParseSourceSpan (s, e)) \<and> isWithin e (ParseSourceSpan (s, e)) \<and>
      isWithin s (AbsoluteSourceSpan (s, e)) \<and> isWithin e (AbsoluteSourceSpan (s, e)) \<and>
      (getSpanIncludingEndTag n = (s, e) \<longrightarrow>
         visit s n [] = node_accept s n [TNode n] \<and> visit e n [] = node_accept e n [TNode n]) \<and>
      findNodeAtPosition [Text (s, e)] s = Some (TNode (Text (s, e))) \<and>
      findNodeAtPosition [Text (s, e)] e = Some (TNode (Text (s, e))))"
  by (simp add: findNodeAtPosition_def isTemplateNodeWithKeyAndValue_def keySpan_def)

theorem isWithin_closed_interval_witness:
  "isWithin 5 (ParseSourceSpan (5, 9)) \<and> isWithin 9 (ParseSourceSpan (5, 9)) \<and>
   \<not> isWithin 4 (ParseSourceSpan (5, 9)) \<and> \<not> isWithin 10 (AbsoluteSourceSpan (5, 9)) \<and>
   findNodeAtPosition [Text (5, 9)] 5 = Some (TNode (Text (5, 9))) \<and>
   findNodeAtPosition [Text (5, 9)] 9 = Some (TNode (Text (5, 9)))"
  using isWithin_closed_interval [of 5 5 9 "Text (5, 9)"] isWithin_closed_interval [of 9 5 9 "Text (5, 9)"]
    isWithin_closed_interval [of 4 5 9 "Text (5, 9)"] isWithin_closed_interval [of 10 5 9 "Text (5, 9)"]
  by simp

subsection \<open>Entering and skipping candidates\<close>

text \<open>
  Claim C1, as the code has it. \<^verbatim>\<open>visit\<close> compares the length of the candidate's span with
  the length of the span of the last entry of the path, and refuses the candidate only when
  it is \<^emph>\<open>strictly larger\<close>: then the path is returned unchanged, so neither the candidate
  nor anything below it is entered, and a run of sibling roots that are all strictly larger
  than the last match leaves the path as it is. A candidate that contains the position and
  is of equal or smaller length (or meets an empty path) is pushed and entered.
\<close>

theorem visit_skips_strictly_larger:
  "(path \<noteq> [] \<and>
    spanLength (getSpanIncludingEndTag node) > spanLength (entrySpan (last path)) \<longrightarrow>
      visit position node path = path) \<and>
   (path \<noteq> [] \<and>
    (\<forall>n\<in>set ns. spanLength (getSpanIncludingEndTag n) > spanLength (entrySpan (last path))) \<longrightarrow>
      visitAll position ns path = path) \<and>
   (isWithin position (AbsoluteSourceSpan (getSpanIncludingEndTag node)) \<and>
    (path = [] \<or> spanLength (getSpanIncludingEndTag node) \<le> spanLength (entrySpan (last path))) \<longrightarrow>
      visit position node path = node_accept position node (path @ [TNode node]))"
  using visit_larger visitAll_larger visit_enter by blast

theorem visit_skips_strictly_larger_witness:
  "visit 3 (Element (3, 6) (Some (6, 10)) [] [] [] [] []) [TNode (Text (0, 3))] = [TNode (Text (0, 3))] \<and>
   visitAll 3 [Element (3, 6) (Some (6, 10)) [] [] [] [] [], Text (2, 7)] [TNode (Text (0, 3))] = [TNode (Text (0, 3))] \<and>
   visit 3 (Text (3, 5)) [TNode (Text (0, 3))] = [TNode (Text (0, 3)), TNode (Text (3, 5))]"
  using visit_skips_strictly_larger [of "[TNode (Text (0, 3))]" "Element (3, 6) (Some (6, 10)) [] [] [] [] []" 3
      "[Element (3, 6) (Some (6, 10)) [] [] [] [] [], Text (2, 7)]"]
    visit_skips_strictly_larger [of "[TNode (Text (0, 3))]" "Text (3, 5)" 3 "[]"]
  by simp

text \<open>
  The claim as stated (no descent when the candidate's span is \<^emph>\<open>not strictly smaller\<close>)
  fails for spans of equal length. In \<^verbatim>\<open><a></a><b></b>\<close> at offset 7 the first root matches,
  the second root has a span of the same length, and it is entered all the same: it is the
  node that \<^verbatim>\<open>findNodeAtPosition\<close> returns.
\<close>

theorem visit_enters_equal_span_counterexample:
  "isWithin 7 (AbsoluteSourceSpan (getSpanIncludingEndTag sibling_b)) \<and>
   \<not> spanLength (getSpanIncludingEndTag sibling_b) < spanLength (entrySpan (last [TNode sibling_a])) \<and>
   visitAll 7 [sibling_a] [] = [TNode sibling_a] \<and>
   visit 7 sibling_b [TNode sibling_a] = [TNode sibling_a, TNode sibling_b] \<and>
   findNodeAtPosition [sibling_a, sibling_b] 7 = Some (TNode sibling_b)"
  by (simp add: sibling_a_def sibling_b_def findNodeAtPosition_def isTemplateNodeWithKeyAndValue_def keySpan_def)

subsection \<open>The span of elements and templates\<close>




subsection \<open>When no node is returned\<close>

text \<open>
  Claim C7. \<^verbatim>\<open>findNodeAtPosition\<close> is a total function without an error branch, and it
  returns \<^verbatim>\<open>undefined\<close> in exactly two situations: the position lies outside the span of
  every root node (the span that the resolver tests, end tag included), or the located
  node, the last entry of the path, is a key/value-shaped template node that has both a key
  span and a value span, neither of which contains the position, although the span of the
  node itself does.
\<close>

theorem findNodeAtPosition_undefined_iff:
  "findNodeAtPosition nodes position = None \<longleftrightarrow>
     (\<forall>n \<in> set nodes. \<not> isWithin position (AbsoluteSourceSpan (getSpanIncludingEndTag n))) \<or>
     (\<exists>n k v. lastEntry (visitAll position nodes []) = Some (TNode n) \<and>
        keySpan n = Some k \<and> valueSpan n = Some v \<and>
        \<not> isWithin position (ParseSourceSpan k) \<and> \<not> isWithin position (ParseSourceSpan v) \<and>
        isWithin position (AbsoluteSourceSpan (getSpanIncludingEndTag n)))"
  (is "?l \<longleftrightarrow> ?outside \<or> ?filtered")
proof -
  have empty: "lastEntry (visitAll position nodes []) = None \<longleftrightarrow> ?outside"
    by (simp add: lastEntry_None visitAll_Nil_iff)
  show ?thesis
  proof (cases "lastEntry (visitAll position nodes [])")
    case None
    with empty show ?thesis
      by (simp add: findNodeAtPosition_def)
  next
    case (Some x)
    with empty have no: "\<not> ?outside" by simp
    show ?thesis
    proof (cases x)
      case (TNode n)
      with Some candidate_within [of position nodes x]
      have "isWithin position (AbsoluteSourceSpan (getSpanIncludingEndTag n))" by simp
      with Some TNode no show ?thesis
        by (auto simp: findNodeAtPosition_def isTemplateNodeWithKeyAndValue_def split: option.splits)
    next
      case (ENode a)
      with Some no show ?thesis
        by (auto simp: findNodeAtPosition_def)
    qed
  qed
qed

theorem findNodeAtPosition_undefined_iff_witness:
  "findNodeAtPosition [Text (0, 5)] 7 = None \<and>
   findNodeAtPosition [div_with_binding] 11 = None \<and>
   findNodeAtPosition [div_with_binding] 7 \<noteq> None"
proof -
  have out: "\<forall>n\<in>set [Text (0, 5)]. \<not> isWithin 7 (AbsoluteSourceSpan (getSpanIncludingEndTag n))"
    by simp
  have a: "findNodeAtPosition [Text (0, 5)] 7 = None"
    using findNodeAtPosition_undefined_iff [of "[Text (0, 5)]" 7] out by blast
  have run: "lastEntry (visitAll 11 [div_with_binding] []) = Some (TNode name_binding)"
    by (simp add: div_with_binding_def name_binding_def isTwoWayBinding_def Let_def)
  have "keySpan name_binding = Some (6, 10) \<and> valueSpan name_binding = Some (13, 15) \<and>
        \<not> isWithin 11 (ParseSourceSpan (6, 10)) \<and> \<not> isWithin 11 (ParseSourceSpan (13, 15)) \<and>
        isWithin 11 (AbsoluteSourceSpan (getSpanIncludingEndTag name_binding))"
    by (simp add: name_binding_def keySpan_def valueSpan_def)
  with run have b: "findNodeAtPosition [div_with_binding] 11 = None"
    using findNodeAtPosition_undefined_iff [of "[div_with_binding]" 11] by blast
  have run7: "lastEntry (visitAll 7 [div_with_binding] []) = Some (TNode name_binding)"
    by (simp add: div_with_binding_def name_binding_def isTwoWayBinding_def Let_def)
  have "isWithin 7 (AbsoluteSourceSpan (getSpanIncludingEndTag div_with_binding))"
    by (simp add: div_with_binding_def)
  moreover have "isWithin 7 (ParseSourceSpan (6, 10)) \<and> keySpan name_binding = Some (6, 10)"
    by (simp add: name_binding_def keySpan_def)
  ultimately have c: "findNodeAtPosition [div_with_binding] 7 \<noteq> None"
    using findNodeAtPosition_undefined_iff [of "[div_with_binding]" 7] run7 by auto
  from a b c show ?thesis by blast
qed

section \<open>Properties of the metadata flattener\<close>

subsection \<open>What the walk up a chain computes\<close>

lemma addMetadata_chain:
  "chain reader meta ms d \<Longrightarrow>
   addMetadata reader meta vs = Some (foldr mergeLevel ms (vs\<lparr>isDynamic := isDynamic vs \<or> d\<rparr>))"
proof (induction arbitrary: vs rule: chain.induct)
  case (chain_null meta)
  then show ?case by (subst addMetadata.simps) simp
next
  case (chain_dynamic meta)
  then show ?case by (subst addMetadata.simps) simp
next
  case (chain_missing meta r)
  then show ?case by (subst addMetadata.simps) simp
next
  case (chain_step meta r baseMeta ms d)
  then show ?case by (subst addMetadata.simps) simp
qed

lemma isDynamic_mergeLevel [simp]: "isDynamic (mergeLevel m vs) = isDynamic vs"
  by (simp add: mergeLevel_def)

lemma isDynamic_foldr_mergeLevel [simp]: "isDynamic (foldr mergeLevel ms vs) = isDynamic vs"
  by (induction ms) simp_all

lemma inputs_foldr_mergeLevel:
  "inputs_acc (foldr mergeLevel ms vs) k =
     (case mostDerivedEntry (map inputs ms) k of Some v \<Rightarrow> Some v | None \<Rightarrow> inputs_acc vs k)"
  by (induction ms) (auto simp: mergeLevel_def ClassPropertyMapping_merge_def map_add_def split: option.splits)

lemma outputs_foldr_mergeLevel:
  "outputs_acc (foldr mergeLevel ms vs) k =
     (case mostDerivedEntry (map outputs ms) k of Some v \<Rightarrow> Some v | None \<Rightarrow> outputs_acc vs k)"
  by (induction ms) (auto simp: mergeLevel_def ClassPropertyMapping_merge_def map_add_def split: option.splits)

lemma sets_foldr_mergeLevel:
  "coerced_acc (foldr mergeLevel ms vs) = coerced_acc vs \<union> unionOverLevels coercedInputFields ms"
  "undeclared_acc (foldr mergeLevel ms vs) = undeclared_acc vs \<union> unionOverLevels undeclaredInputFields ms"
  "restricted_acc (foldr mergeLevel ms vs) = restricted_acc vs \<union> unionOverLevels restrictedInputFields ms"
  "stringLiteral_acc (foldr mergeLevel ms vs) = stringLiteral_acc vs \<union> unionOverLevels stringLiteralInputFields ms"
  by (induction ms) (auto simp: mergeLevel_def unionOverLevels_def)

lemma chain_NoBase: "chain reader meta ms d \<Longrightarrow> baseClass meta = NoBase \<Longrightarrow> ms = [meta] \<and> \<not> d"
  by (induction rule: chain.induct) simp_all

lemma mostDerivedEntry_single: "mostDerivedEntry [m] = m"
  by (rule ext) (simp split: option.splits)

lemma flatten_chain:
  assumes "reader dir = Some topMeta" and "chain reader topMeta ms d"
  shows "flattenInheritedDirectiveMetadata reader dir =
     Some (Inr (topMeta
       \<lparr>inputs := mostDerivedEntry (map inputs ms),
        outputs := mostDerivedEntry (map outputs ms),
        coercedInputFields := unionOverLevels coercedInputFields ms,
        undeclaredInputFields := unionOverLevels undeclaredInputFields ms,
        restrictedInputFields := unionOverLevels restrictedInputFields ms,
        stringLiteralInputFields := unionOverLevels stringLiteralInputFields ms,
        baseClass := (if d then Dynamic else NoBase)\<rparr>))"
proof (cases "baseClass topMeta = NoBase")
  case True
  with assms(2) have "ms = [topMeta]" and "\<not> d"
    using chain_NoBase by blast+
  with True assms(1) show ?thesis
    by (simp add: flattenInheritedDirectiveMetadata_def mostDerivedEntry_single unionOverLevels_def)
next
  case False
  let ?vs = "foldr mergeLevel ms (initial_vars\<lparr>isDynamic := d\<rparr>)"
  have start: "initial_vars\<lparr>isDynamic := isDynamic initial_vars \<or> d\<rparr> = initial_vars\<lparr>isDynamic := d\<rparr>"
    by (simp add: initial_vars_def)
  have run: "addMetadata reader topMeta initial_vars = Some ?vs"
    using addMetadata_chain [OF assms(2), of initial_vars] unfolding start .
  have i: "inputs_acc ?vs = mostDerivedEntry (map inputs ms)"
    by (rule ext)
      (simp add: inputs_foldr_mergeLevel initial_vars_def ClassPropertyMapping_empty_def
        split: option.splits)
  have out: "outputs_acc ?vs = mostDerivedEntry (map outputs ms)"
    by (rule ext)
      (simp add: outputs_foldr_mergeLevel initial_vars_def ClassPropertyMapping_empty_def
        split: option.splits)
  have sets:
    "coerced_acc ?vs = unionOverLevels coercedInputFields ms"
    "undeclared_acc ?vs = unionOverLevels undeclaredInputFields ms"
    "restricted_acc ?vs = unionOverLevels restrictedInputFields ms"
    "stringLiteral_acc ?vs = unionOverLevels stringLiteralInputFields ms"
    by (simp_all add: sets_foldr_mergeLevel initial_vars_def)
  have dyn: "isDynamic ?vs = d"
    by simp
  show ?thesis
    unfolding flattenInheritedDirectiveMetadata_def
    using False assms(1) by (simp add: run i out sets dyn)
qed

lemma flatten_fixed:
  assumes "reader dir = Some m" and "baseClass m = NoBase \<or> baseClass m = Dynamic"
  shows "flattenInheritedDirectiveMetadata reader dir = Some (Inr m)"
proof -
  from assms(2) have "chain reader m [m] (baseClass m = Dynamic)"
    by (auto intro: chain.intros)
  from flatten_chain [OF assms(1) this] assms(2) show ?thesis
    by (auto simp: mostDerivedEntry_single unionOverLevels_def)
qed

lemma flatten_baseClass:
  assumes "flattenInheritedDirectiveMetadata reader dir = Some (Inr m)"
  shows "baseClass m = NoBase \<or> baseClass m = Dynamic"
  using assms
  by (auto simp: flattenInheritedDirectiveMetadata_def split: option.splits if_splits bind_splits)

subsection \<open>The directive without base class\<close>

text \<open>
  Claim C3. When the reader knows the directive and its declared metadata has
  \<^verbatim>\<open>baseClass\<close> \<^verbatim>\<open>null\<close>, \<^verbatim>\<open>flattenInheritedDirectiveMetadata\<close> returns that very record:
  nothing is merged.
\<close>

theorem flatten_null_base:
  assumes "reader dir = Some m" and "baseClass m = NoBase"
  shows "flattenInheritedDirectiveMetadata reader dir = Some (Inr m)"
  using assms by (simp add: flattenInheritedDirectiveMetadata_def)

theorem flatten_null_base_witness:
  "flattenInheritedDirectiveMetadata full_reader ''Grand'' = Some (Inr grand_meta)"
  using flatten_null_base [of full_reader "''Grand''" grand_meta]
  by (simp add: full_reader_def grand_meta_def)

subsection \<open>Missing metadata of the directive itself\<close>

text \<open>
  Claim C9. When the reader has no metadata for the queried directive itself,
  \<^verbatim>\<open>flattenInheritedDirectiveMetadata\<close> throws the error ``Metadata not found for directive''
  and returns no record. Missing metadata of a base class is absorbed instead: the call
  returns a record marked \<^verbatim>\<open>'dynamic'\<close>. Whenever the reader knows the directive, no error
  is thrown.
\<close>

theorem flatten_missing_top:
  "(reader dir = None \<longrightarrow>
      flattenInheritedDirectiveMetadata reader dir =
        Some (Inl (Error (''Metadata not found for directive: '' @ dir)))) \<and>
   (reader dir = Some topMeta \<and> baseClass topMeta = BaseRef b \<and> reader b = None \<longrightarrow>
      (\<exists>res. flattenInheritedDirectiveMetadata reader dir = Some (Inr res) \<and>
         baseClass res = Dynamic)) \<and>
   (reader dir \<noteq> None \<longrightarrow> (\<forall>e. flattenInheritedDirectiveMetadata reader dir \<noteq> Some (Inl e)))"
proof (intro conjI impI)
  assume "reader dir = None"
  then show "flattenInheritedDirectiveMetadata reader dir =
        Some (Inl (Error (''Metadata not found for directive: '' @ dir)))"
    by (simp add: flattenInheritedDirectiveMetadata_def)
next
  assume a: "reader dir = Some topMeta \<and> baseClass topMeta = BaseRef b \<and> reader b = None"
  then have "chain reader topMeta [topMeta] True"
    by (auto intro: chain_missing)
  with a show "\<exists>res. flattenInheritedDirectiveMetadata reader dir = Some (Inr res) \<and>
         baseClass res = Dynamic"
    using flatten_chain by simp
next
  assume "reader dir \<noteq> None"
  then show "\<forall>e. flattenInheritedDirectiveMetadata reader dir \<noteq> Some (Inl e)"
    by (auto simp: flattenInheritedDirectiveMetadata_def split: option.splits bind_splits)
qed

theorem flatten_missing_top_witness:
  "flattenInheritedDirectiveMetadata gap_reader ''Parent'' =
     Some (Inl (Error ''Metadata not found for directive: Parent'')) \<and>
   (\<exists>res. flattenInheritedDirectiveMetadata gap_reader ''Child'' = Some (Inr res) \<and>
      baseClass res = Dynamic) \<and>
   flattenInheritedDirectiveMetadata gap_reader ''Child'' \<noteq>
     Some (Inl (Error ''Metadata not found for directive: Child''))"
  using flatten_missing_top [of gap_reader "''Parent''" child_meta "''Parent''"]
    flatten_missing_top [of gap_reader "''Child''" child_meta "''Parent''"]
  by (simp add: gap_reader_def child_meta_def)

subsection \<open>Chains that are not fully known\<close>

text \<open>
  Claim C4, as the code has it. When the reader knows the directive itself and the walk up
  the chain of base classes from its metadata reaches a level whose \<^verbatim>\<open>baseClass\<close> is
  \<^verbatim>\<open>'dynamic'\<close> or names a class unknown to the reader, the call returns a record whose
  \<^verbatim>\<open>baseClass\<close> is \<^verbatim>\<open>'dynamic'\<close>. In particular, when the base class of the directive, the
  middle of a chain of three, is unknown to the reader, the result is \<^verbatim>\<open>'dynamic'\<close> whatever
  the reader holds for the class beyond it. When the reader does not know the directive
  itself, no record is returned: the call throws.
\<close>

theorem flatten_dynamic:
  "(reader dir = Some topMeta \<and> chain reader topMeta ms True \<longrightarrow>
      (\<exists>res. flattenInheritedDirectiveMetadata reader dir = Some (Inr res) \<and>
         baseClass res = Dynamic)) \<and>
   (reader dir = Some topMeta \<and> baseClass topMeta = BaseRef middle \<and> reader middle = None \<longrightarrow>
      (\<exists>res. flattenInheritedDirectiveMetadata reader dir = Some (Inr res) \<and>
         baseClass res = Dynamic)) \<and>
   (reader dir = None \<longrightarrow>
      flattenInheritedDirectiveMetadata reader dir =
        Some (Inl (Error (''Metadata not found for directive: '' @ dir))))"
proof (intro conjI impI)
  assume "reader dir = Some topMeta \<and> chain reader topMeta ms True"
  then show "\<exists>res. flattenInheritedDirectiveMetadata reader dir = Some (Inr res) \<and>
      baseClass res = Dynamic"
    using flatten_chain [of reader dir topMeta ms True] by simp
next
  assume a: "reader dir = Some topMeta \<and> baseClass topMeta = BaseRef middle \<and> reader middle = None"
  then have "chain reader topMeta [topMeta] True"
    by (auto intro: chain_missing)
  with a show "\<exists>res. flattenInheritedDirectiveMetadata reader dir = Some (Inr res) \<and>
      baseClass res = Dynamic"
    using flatten_chain [of reader dir topMeta "[topMeta]" True] by simp
next
  assume "reader dir = None"
  then show "flattenInheritedDirectiveMetadata reader dir =
      Some (Inl (Error (''Metadata not found for directive: '' @ dir)))"
    by (simp add: flattenInheritedDirectiveMetadata_def)
qed

theorem flatten_dynamic_witness:
  "(\<exists>res. flattenInheritedDirectiveMetadata gap_reader ''Child'' = Some (Inr res) \<and>
      baseClass res = Dynamic) \<and>
   (\<exists>res. flattenInheritedDirectiveMetadata child_only_reader ''Child'' = Some (Inr res) \<and>
      baseClass res = Dynamic) \<and>
   (\<exists>res. flattenInheritedDirectiveMetadata no_grand_reader ''Child'' = Some (Inr res) \<and>
      baseClass res = Dynamic) \<and>
   (\<exists>res. flattenInheritedDirectiveMetadata [''Top'' \<mapsto> child_dynamic] ''Top'' = Some (Inr res) \<and>
      baseClass res = Dynamic) \<and>
   flattenInheritedDirectiveMetadata gap_reader ''Parent'' =
     Some (Inl (Error ''Metadata not found for directive: Parent''))"
proof -
  have "gap_reader ''Child'' = Some child_meta \<and> baseClass child_meta = BaseRef ''Parent'' \<and>
      gap_reader ''Parent'' = None"
    by (simp add: gap_reader_def child_meta_def)
  then have a: "\<exists>res. flattenInheritedDirectiveMetadata gap_reader ''Child'' = Some (Inr res) \<and>
      baseClass res = Dynamic"
    using flatten_dynamic [of gap_reader "''Child''" child_meta "[]" "''Parent''"] by blast
  have "child_only_reader ''Child'' = Some child_meta \<and> baseClass child_meta = BaseRef ''Parent'' \<and>
      child_only_reader ''Parent'' = None"
    by (simp add: child_only_reader_def child_meta_def)
  then have b: "\<exists>res. flattenInheritedDirectiveMetadata child_only_reader ''Child'' = Some (Inr res) \<and>
      baseClass res = Dynamic"
    using flatten_dynamic [of child_only_reader "''Child''" child_meta "[]" "''Parent''"] by blast
  have up: "chain no_grand_reader parent_meta [parent_meta] True"
    by (rule chain_missing [where r = "''Grand''"]) (simp_all add: parent_meta_def no_grand_reader_def)
  have "chain no_grand_reader child_meta [child_meta, parent_meta] True"
  proof (rule chain_step [where r = "''Parent''" and baseMeta = parent_meta])
    show "baseClass child_meta = BaseRef ''Parent''"
      by (simp add: child_meta_def)
    show "no_grand_reader ''Parent'' = Some parent_meta"
      by (simp add: no_grand_reader_def)
  qed (rule up)
  moreover have "no_grand_reader ''Child'' = Some child_meta"
    by (simp add: no_grand_reader_def)
  ultimately have c: "\<exists>res. flattenInheritedDirectiveMetadata no_grand_reader ''Child'' =
      Some (Inr res) \<and> baseClass res = Dynamic"
    using flatten_dynamic [of no_grand_reader "''Child''" child_meta "[child_meta, parent_meta]"]
    by blast
  have "chain [''Top'' \<mapsto> child_dynamic] child_dynamic [child_dynamic] True"
    by (rule chain_dynamic) (simp add: child_dynamic_def)
  then have d: "\<exists>res. flattenInheritedDirectiveMetadata [''Top'' \<mapsto> child_dynamic] ''Top'' =
      Some (Inr res) \<and> baseClass res = Dynamic"
    using flatten_dynamic [of "[''Top'' \<mapsto> child_dynamic]" "''Top''" child_dynamic "[child_dynamic]"]
    by simp
  have "gap_reader ''Parent'' = None"
    by (simp add: gap_reader_def)
  then have e: "flattenInheritedDirectiveMetadata gap_reader ''Parent'' =
      Some (Inl (Error ''Metadata not found for directive: Parent''))"
    using flatten_dynamic [of gap_reader "''Parent''"] by simp
  from a b c d e show ?thesis by blast
qed

text \<open>
  The claim as stated (the result is \<^verbatim>\<open>'dynamic'\<close> regardless of whether the class at either
  end of the chain resolves) fails when the class that does not resolve is the directive
  itself. In the chain \<^verbatim>\<open>Child\<close>, \<^verbatim>\<open>Parent\<close>, \<^verbatim>\<open>Grand\<close> with a reader that knows only
  \<^verbatim>\<open>Grand\<close>, the metadata of the middle class is unavailable, and flattening \<^verbatim>\<open>Child\<close>
  throws instead of returning a record marked \<^verbatim>\<open>'dynamic'\<close>.
\<close>

theorem flatten_unknown_directive_counterexample:
  "baseClass child_meta = BaseRef ''Parent'' \<and> baseClass parent_meta = BaseRef ''Grand'' \<and>
   grand_only_reader ''Parent'' = None \<and> grand_only_reader ''Grand'' = Some grand_meta \<and>
   grand_only_reader ''Child'' = None \<and>
   flattenInheritedDirectiveMetadata grand_only_reader ''Child'' =
     Some (Inl (Error ''Metadata not found for directive: Child''))"
  by (simp add: child_meta_def parent_meta_def grand_only_reader_def
      flattenInheritedDirectiveMetadata_def)

subsection \<open>The merge over a resolvable chain\<close>

lemma merge_fold_mostDerivedEntry:
  "foldr (\<lambda>m acc. ClassPropertyMapping_merge acc (f m)) ms ClassPropertyMapping_empty =
     mostDerivedEntry (map f ms)"
proof (induction ms)
  case Nil
  show ?case
    by (rule ext) (simp add: ClassPropertyMapping_empty_def)
next
  case (Cons m ms)
  have "foldr (\<lambda>m acc. ClassPropertyMapping_merge acc (f m)) (m # ms) ClassPropertyMapping_empty =
      ClassPropertyMapping_merge (mostDerivedEntry (map f ms)) (f m)"
    by (simp only: foldr.simps o_apply Cons)
  also have "\<dots> = mostDerivedEntry (map f (m # ms))"
    by (rule ext) (simp add: ClassPropertyMapping_merge_def map_add_def split: option.splits)
  finally show ?case .
qed

lemma full_chain: "chain full_reader child_meta [child_meta, parent_meta, grand_meta] False"
proof -
  have g: "chain full_reader grand_meta [grand_meta] False"
    by (rule chain_null) (simp add: grand_meta_def)
  have p: "chain full_reader parent_meta [parent_meta, grand_meta] False"
  proof (rule chain_step [where r = "''Grand''" and baseMeta = grand_meta])
    show "baseClass parent_meta = BaseRef ''Grand''"
      by (simp add: parent_meta_def)
    show "full_reader ''Grand'' = Some grand_meta"
      by (simp add: full_reader_def)
  qed (rule g)
  show ?thesis
  proof (rule chain_step [where r = "''Parent''" and baseMeta = parent_meta])
    show "baseClass child_meta = BaseRef ''Parent''"
      by (simp add: child_meta_def)
    show "full_reader ''Parent'' = Some parent_meta"
      by (simp add: full_reader_def)
  qed (rule p)
qed

text \<open>
  Claim C5. For a chain that ends at a level without base class, the call returns a record
  whose inputs and outputs are the merge of the mappings of all levels, each level merged
  over its base classes so that the entries of the more derived level win: for every key
  the entry is that of the most derived level that declares the key. Each of the four
  field-classification sets of the result is the union of that set over all levels, and the
  result has \<^verbatim>\<open>baseClass\<close> \<^verbatim>\<open>null\<close>.
\<close>

theorem flatten_merges_levels:
  assumes "reader dir = Some topMeta" and "chain reader topMeta ms False"
  shows "\<exists>res. flattenInheritedDirectiveMetadata reader dir = Some (Inr res) \<and>
     inputs res =
       foldr (\<lambda>m acc. ClassPropertyMapping_merge acc (inputs m)) ms ClassPropertyMapping_empty \<and>
     outputs res =
       foldr (\<lambda>m acc. ClassPropertyMapping_merge acc (outputs m)) ms ClassPropertyMapping_empty \<and>
     inputs res = mostDerivedEntry (map inputs ms) \<and>
     outputs res = mostDerivedEntry (map outputs ms) \<and>
     coercedInputFields res = unionOverLevels coercedInputFields ms \<and>
     undeclaredInputFields res = unionOverLevels undeclaredInputFields ms \<and>
     restrictedInputFields res = unionOverLevels restrictedInputFields ms \<and>
     stringLiteralInputFields res = unionOverLevels stringLiteralInputFields ms \<and>
     baseClass res = NoBase \<and> selector res = selector topMeta"
  using flatten_chain [OF assms] by (simp add: merge_fold_mostDerivedEntry)

theorem flatten_merges_levels_witness:
  "\<exists>res. flattenInheritedDirectiveMetadata full_reader ''Child'' = Some (Inr res) \<and>
     inputs res ''value'' = Some ''childValue'' \<and>
     inputs res ''label'' = Some ''label'' \<and>
     inputs res ''id'' = Some ''id'' \<and>
     inputs res ''other'' = None \<and>
     outputs res ''changed'' = Some ''childChanged'' \<and>
     coercedInputFields res = {''size'', ''label''} \<and>
     undeclaredInputFields res = {''legacy''} \<and>
     restrictedInputFields res = {''secret''} \<and>
     stringLiteralInputFields res = {''aria-label''} \<and>
     baseClass res = NoBase"
proof -
  have r: "full_reader ''Child'' = Some child_meta"
    by (simp add: full_reader_def)
  from flatten_merges_levels [OF r full_chain] obtain res where
    res: "flattenInheritedDirectiveMetadata full_reader ''Child'' = Some (Inr res)"
      "inputs res = mostDerivedEntry (map inputs [child_meta, parent_meta, grand_meta])"
      "outputs res = mostDerivedEntry (map outputs [child_meta, parent_meta, grand_meta])"
      "coercedInputFields res = unionOverLevels coercedInputFields [child_meta, parent_meta, grand_meta]"
      "undeclaredInputFields res = unionOverLevels undeclaredInputFields [child_meta, parent_meta, grand_meta]"
      "restrictedInputFields res = unionOverLevels restrictedInputFields [child_meta, parent_meta, grand_meta]"
      "stringLiteralInputFields res = unionOverLevels stringLiteralInputFields [child_meta, parent_meta, grand_meta]"
      "baseClass res = NoBase"
    by blast
  show ?thesis
    by (rule exI [of _ res])
      (simp add: res child_meta_def parent_meta_def grand_meta_def unionOverLevels_def insert_commute)
qed

subsection \<open>Flattening a flattened record\<close>

lemma flatten_gap_reader:
  "flattenInheritedDirectiveMetadata gap_reader ''Child'' = Some (Inr child_dynamic)"
proof -
  have c: "chain gap_reader child_meta [child_meta] True"
    by (rule chain_missing [where r = "''Parent''"]) (simp_all add: child_meta_def gap_reader_def)
  have r: "gap_reader ''Child'' = Some child_meta"
    by (simp add: gap_reader_def)
  show ?thesis
    using flatten_chain [OF r c]
    by (simp add: mostDerivedEntry_single unionOverLevels_def child_dynamic_def child_meta_def)
qed

text \<open>
  Claim C2. A record returned by \<^verbatim>\<open>flattenInheritedDirectiveMetadata\<close> has \<^verbatim>\<open>baseClass\<close>
  \<^verbatim>\<open>null\<close> or \<^verbatim>\<open>'dynamic'\<close>, and flattening a directive for which a reader returns that
  record gives the same record again.
\<close>

theorem flatten_idempotent:
  assumes "flattenInheritedDirectiveMetadata reader dir = Some (Inr m)"
    and "reader' dir' = Some m"
  shows "(baseClass m = NoBase \<or> baseClass m = Dynamic) \<and>
         flattenInheritedDirectiveMetadata reader' dir' = Some (Inr m)"
  using flatten_baseClass [OF assms(1)] flatten_fixed [of reader' dir' m] assms(2) by blast

theorem flatten_idempotent_witness:
  "flattenInheritedDirectiveMetadata gap_reader ''Child'' = Some (Inr child_dynamic) \<and>
   baseClass child_dynamic = Dynamic \<and>
   flattenInheritedDirectiveMetadata [''Flat'' \<mapsto> child_dynamic] ''Flat'' = Some (Inr child_dynamic)"
  using flatten_idempotent [OF flatten_gap_reader, of "[''Flat'' \<mapsto> child_dynamic]" "''Flat''"]
    flatten_gap_reader
  by (simp add: child_dynamic_def)

section \<open>Properties of the message serializer\<close>

text \<open>
  Claim C8, as the code has it. An exception thrown by \<^verbatim>\<open>parseInnerRange\<close> escapes from
  \<^verbatim>\<open>serializeTranslationMessage\<close>, and no record is returned. Whenever \<^verbatim>\<open>parseInnerRange\<close>
  returns, a record is returned, and its parse errors are those that \<^verbatim>\<open>parseInnerRange\<close>
  gathered, whatever the serializer and its configuration do. When serializing throws,
  the thrown value is the only element of \<^verbatim>\<open>serializeErrors\<close> and the translation is
  \<^verbatim>\<open>null\<close>; when serializing returns, \<^verbatim>\<open>serializeErrors\<close> is empty and the translation is the
  value that the serializer returned.
\<close>

theorem serializeTranslationMessage_errors:
  "(\<forall>thrown. parseInnerRange element = Inl thrown \<longrightarrow>
      serializeTranslationMessage parseInnerRange serialize element config = Inl thrown) \<and>
   (\<forall>rootNodes errs. parseInnerRange element = Inr (rootNodes, errs) \<longrightarrow>
      (\<exists>r. serializeTranslationMessage parseInnerRange serialize element config = Inr r \<and>
         parseErrors r = errs \<and>
         (\<forall>e. serialize config rootNodes = Inl e \<longrightarrow>
            translation r = None \<and> serializeErrors r = [e]) \<and>
         (\<forall>t. serialize config rootNodes = Inr t \<longrightarrow>
            translation r = t \<and> serializeErrors r = [])) \<and>
      (\<forall>serialize' config' r r'.
         serializeTranslationMessage parseInnerRange serialize element config = Inr r \<and>
         serializeTranslationMessage parseInnerRange serialize' element config' = Inr r' \<longrightarrow>
           parseErrors r' = parseErrors r))"
proof (intro conjI allI impI)
  fix thrown
  assume "parseInnerRange element = Inl thrown"
  then show "serializeTranslationMessage parseInnerRange serialize element config = Inl thrown"
    by (simp add: serializeTranslationMessage_def)
next
  fix rootNodes errs
  assume p: "parseInnerRange element = Inr (rootNodes, errs)"
  have shape: "\<exists>r. serializeTranslationMessage parseInnerRange f element c = Inr r \<and>
       parseErrors r = errs \<and>
       (\<forall>e. f c rootNodes = Inl e \<longrightarrow> translation r = None \<and> serializeErrors r = [e]) \<and>
       (\<forall>t. f c rootNodes = Inr t \<longrightarrow> translation r = t \<and> serializeErrors r = [])"
    for f c
    using p by (cases "f c rootNodes") (simp_all add: serializeTranslationMessage_def)
  from shape show "\<exists>r. serializeTranslationMessage parseInnerRange serialize element config = Inr r \<and>
       parseErrors r = errs \<and>
       (\<forall>e. serialize config rootNodes = Inl e \<longrightarrow>
          translation r = None \<and> serializeErrors r = [e]) \<and>
       (\<forall>t. serialize config rootNodes = Inr t \<longrightarrow>
          translation r = t \<and> serializeErrors r = [])" .
  fix serialize' config' r r'
  assume "serializeTranslationMessage parseInnerRange serialize element config = Inr r \<and>
      serializeTranslationMessage parseInnerRange serialize' element config' = Inr r'"
  with shape [of serialize config] shape [of serialize' config']
  show "parseErrors r' = parseErrors r"
    by auto
qed

theorem serializeTranslationMessage_errors_witness:
  "serializeTranslationMessage sample_parseInnerRange sample_serialize [] True =
     Inl ''TypeError: cannot read the end tag'' \<and>
   serializeTranslationMessage sample_parseInnerRange sample_serialize ''<b>x</b>'' True =
     Inr \<lparr>translation = None, parseErrors = [''Unexpected closing tag''],
      serializeErrors = [''Nested translatable section'']\<rparr> \<and>
   serializeTranslationMessage sample_parseInnerRange sample_serialize ''<b>x</b>'' False =
     Inr \<lparr>translation = Some 1, parseErrors = [''Unexpected closing tag''], serializeErrors = []\<rparr>"
proof -
  let ?el = "''<b>x</b>''"
  have thrown: "sample_parseInnerRange [] = Inl ''TypeError: cannot read the end tag''"
    by (simp add: sample_parseInnerRange_def)
  have parsed: "sample_parseInnerRange ?el = Inr ([?el], [''Unexpected closing tag''])"
    by (simp add: sample_parseInnerRange_def)
  have strict: "sample_serialize True [?el] = Inl ''Nested translatable section''"
    by (simp add: sample_serialize_def)
  have lax: "sample_serialize False [?el] = Inr (Some 1)"
    by (simp add: sample_serialize_def)
  note escapes =
    serializeTranslationMessage_errors [of sample_parseInnerRange "[]" sample_serialize True,
      THEN conjunct1, rule_format, OF thrown]
  note strict_run =
    serializeTranslationMessage_errors [of sample_parseInnerRange ?el sample_serialize True,
      THEN conjunct2, rule_format, OF parsed, THEN conjunct1]
  note lax_run =
    serializeTranslationMessage_errors [of sample_parseInnerRange ?el sample_serialize False,
      THEN conjunct2, rule_format, OF parsed, THEN conjunct1]
  from strict_run obtain r where r:
    "serializeTranslationMessage sample_parseInnerRange sample_serialize ?el True = Inr r"
    "parseErrors r = [''Unexpected closing tag'']"
    "\<forall>e. sample_serialize True [?el] = Inl e \<longrightarrow> translation r = None \<and> serializeErrors r = [e]"
    by (elim exE conjE)
  from r(3) strict have "translation r = None \<and> serializeErrors r = [''Nested translatable section'']"
    by (elim allE impE) assumption
  with r(2) have "r = \<lparr>translation = None, parseErrors = [''Unexpected closing tag''],
      serializeErrors = [''Nested translatable section'']\<rparr>"
    by (intro serialized.equality) simp_all
  with r(1) have b: "serializeTranslationMessage sample_parseInnerRange sample_serialize ?el True =
      Inr \<lparr>translation = None, parseErrors = [''Unexpected closing tag''],
        serializeErrors = [''Nested translatable section'']\<rparr>"
    by (simp only:)
  from lax_run obtain r' where r':
    "serializeTranslationMessage sample_parseInnerRange sample_serialize ?el False = Inr r'"
    "parseErrors r' = [''Unexpected closing tag'']"
    "\<forall>t. sample_serialize False [?el] = Inr t \<longrightarrow> translation r' = t \<and> serializeErrors r' = []"
    by (elim exE conjE)
  from r'(3) lax have "translation r' = Some 1 \<and> serializeErrors r' = []"
    by (elim allE impE) assumption
  with r'(2) have "r' = \<lparr>translation = Some 1, parseErrors = [''Unexpected closing tag''],
      serializeErrors = []\<rparr>"
    by (intro serialized.equality) simp_all
  with r'(1) have c: "serializeTranslationMessage sample_parseInnerRange sample_serialize ?el False =
      Inr \<lparr>translation = Some 1, parseErrors = [''Unexpected closing tag''], serializeErrors = []\<rparr>"
    by (simp only:)
  from escapes b c show ?thesis
    by (intro conjI)
qed

text \<open>
  The claim as stated fails in two places. \<^verbatim>\<open>serializeTranslationMessage\<close> does not always
  return: what \<^verbatim>\<open>parseInnerRange\<close> throws is thrown on, with no error list at all. And after a
  successful serialization the translation is whatever the serializer returned, which the
  function does not test: a serializer that returns \<^verbatim>\<open>null\<close> gives a \<^verbatim>\<open>null\<close> translation with
  an empty \<^verbatim>\<open>serializeErrors\<close>.
\<close>

theorem serializeTranslationMessage_counterexample:
  "sample_parseInnerRange [] = Inl ''TypeError: cannot read the end tag'' \<and>
   serializeTranslationMessage sample_parseInnerRange sample_serialize [] False =
     Inl ''TypeError: cannot read the end tag'' \<and>
   null_serialize False [''<b>x</b>''] = Inr None \<and>
   serializeTranslationMessage sample_parseInnerRange null_serialize ''<b>x</b>'' False =
     Inr \<lparr>translation = None, parseErrors = [''Unexpected closing tag''], serializeErrors = []\<rparr>"
  by (simp add: serializeTranslationMessage_def sample_parseInnerRange_def null_serialize_def)

end
